theory Spec2Isabelle
  imports Main "HOL-Library.Sublist" "HOL-Library.Char_ord" "HOL-Library.List_Lexorder"
begin

section \<open>Candidate nodes\<close>

text \<open>
  The syntax tree of \<^verbatim>\<open>xpath_syntax_tree.py\<close> is evaluated against document nodes of an
  external library. The source reads four things from a node \<open>x\<close>: \<^verbatim>\<open>x.name\<close>,
  \<^verbatim>\<open>x.attrs\<close> (a dict from strings to strings), \<^verbatim>\<open>x.text\<close> and \<^verbatim>\<open>x.find_all()\<close>.
  A node is a finite tree; \<^verbatim>\<open>x.attrs\<close> is held as an association list read with
  \<open>map_of\<close>. Membership tests of the source (\<^verbatim>\<open>x in pos\<close>) compare nodes with \<^verbatim>\<open>==\<close>,
  which is equality of the node values here.
\<close>

datatype node = Node (name: string) (attrs: "(string \<times> string) list")
  (node_text: string) (contents: "node list")

text \<open>
  \<^verbatim>\<open>x.find_all()\<close> with no argument: every node below \<open>x\<close> in document order, \<open>x\<close>
  itself not among them.
\<close>

fun find_all :: "node \<Rightarrow> node list" where
  "find_all (Node nm at tx cs) = concat (map (\<lambda>c. c # find_all c) cs)"

section \<open>Errors and values\<close>

text \<open>The exceptions the source can raise, by their Python class.\<close>

datatype error = SyntaxError | TypeError | IndexError | ValueError
  | NotImplementedError | AttributeError

text \<open>
  What \<^verbatim>\<open>evaluate\<close> returns: \<^verbatim>\<open>None\<close> (the base class body is \<^verbatim>\<open>pass\<close>), a tuple
  \<^verbatim>\<open>(selected, rejected)\<close>, or a list of strings (the two extraction steps).
\<close>

datatype result = VNone | VPair "node list" "node list" | VList "string list"

text \<open>The \<^verbatim>\<open>value\<close> field of a literal is a Python \<^verbatim>\<open>str\<close> or \<^verbatim>\<open>int\<close>.\<close>

datatype pyval = PyStr string | PyInt int

datatype relop = OpGt | OpGe | OpLt | OpLe | OpEq | OpNe

text \<open>
  The six comparison operators on two Python values. \<^verbatim>\<open>==\<close> and \<^verbatim>\<open>!=\<close> between a
  \<^verbatim>\<open>str\<close> and an \<^verbatim>\<open>int\<close> answer without error (never equal); the four order
  comparisons between a \<^verbatim>\<open>str\<close> and an \<^verbatim>\<open>int\<close> raise \<^verbatim>\<open>TypeError\<close>. Strings are
  ordered lexicographically by character code.
\<close>

fun py_compare :: "relop \<Rightarrow> pyval \<Rightarrow> pyval \<Rightarrow> error + bool" where
  "py_compare OpEq a b = Inr (a = b)"
| "py_compare OpNe a b = Inr (a \<noteq> b)"
| "py_compare OpGt (PyStr a) (PyStr b) = Inr (a > b)"
| "py_compare OpGe (PyStr a) (PyStr b) = Inr (a \<ge> b)"
| "py_compare OpLt (PyStr a) (PyStr b) = Inr (a < b)"
| "py_compare OpLe (PyStr a) (PyStr b) = Inr (a \<le> b)"
| "py_compare OpGt (PyInt a) (PyInt b) = Inr (a > b)"
| "py_compare OpGe (PyInt a) (PyInt b) = Inr (a \<ge> b)"
| "py_compare OpLt (PyInt a) (PyInt b) = Inr (a < b)"
| "py_compare OpLe (PyInt a) (PyInt b) = Inr (a \<le> b)"
| "py_compare op a b = Inl TypeError"

section \<open>The syntax tree\<close>

text \<open>
  The classes below \<^verbatim>\<open>Expression\<close> that can stand inside a predicate: the three operand
  classes with their \<^verbatim>\<open>value\<close>, and the operator classes with their \<^verbatim>\<open>children\<close> list
  in the order of \<^verbatim>\<open>add_child\<close>. The \<^verbatim>\<open>parent\<close> field is never read and is left out.
  \<^verbatim>\<open>_predicate_postfix_to_tree\<close> is the only caller of \<^verbatim>\<open>add_child\<close>, and it adds operands
  and operator nodes only, so the step classes do not occur as children.
\<close>

datatype predicate =
    AttributeName string
  | StringLiteral string
  | NumberLiteral int
  | GreaterThan "predicate list"
  | GreaterThanOrEqual "predicate list"
  | SmallerThan "predicate list"
  | SmallerThanOrEqual "predicate list"
  | Equal "predicate list"
  | NotEqual "predicate list"
  | LogicalAnd "predicate list"
  | LogicalOr "predicate list"
  | LogicalNot "predicate list"
  | TextContains "predicate list"
  | TextStartsWith "predicate list"
  | TextEndsWith "predicate list"
  | TextLength "predicate list"

text \<open>The entries of the list \<^verbatim>\<open>xpath_to_syntax_tree\<close> returns.\<close>

datatype expression =
    SelectFromRootNode
  | SelectAll
  | SelectStar
  | SelectHTMLTag string
  | SelectText
  | SelectAttribute string
  | PredicateNode predicate

text \<open>The tests on \<^verbatim>\<open>__class__.__name__\<close>.\<close>

fun is_AttributeName :: "predicate \<Rightarrow> bool" where
  "is_AttributeName (AttributeName v) = True"
| "is_AttributeName p = False"

fun is_StringLiteral :: "predicate \<Rightarrow> bool" where
  "is_StringLiteral (StringLiteral v) = True"
| "is_StringLiteral p = False"

fun is_NumberLiteral :: "predicate \<Rightarrow> bool" where
  "is_NumberLiteral (NumberLiteral v) = True"
| "is_NumberLiteral p = False"

text \<open>Reading \<^verbatim>\<open>.value\<close>: only the operand classes have the field.\<close>

fun value_of :: "predicate \<Rightarrow> error + pyval" where
  "value_of (AttributeName v) = Inr (PyStr v)"
| "value_of (StringLiteral v) = Inr (PyStr v)"
| "value_of (NumberLiteral v) = Inr (PyInt v)"
| "value_of p = Inl AttributeError"

definition compare_values :: "relop \<Rightarrow> error + pyval \<Rightarrow> error + pyval \<Rightarrow> error + bool" where
  "compare_values op a b =
     (case a of Inl e \<Rightarrow> Inl e
      | Inr x \<Rightarrow> (case b of Inl e \<Rightarrow> Inl e | Inr y \<Rightarrow> py_compare op x y))"

section \<open>Comparison operators\<close>

text \<open>
  \<^verbatim>\<open>Comparison._check_arguments\<close>: \<open>r\<close> is \<^verbatim>\<open>children[0]\<close>, \<open>l\<close> is \<^verbatim>\<open>children[1]\<close>
  (an \<^verbatim>\<open>IndexError\<close> when the list is shorter), then the four tests in the source's order.
\<close>

definition check_arguments :: "predicate list \<Rightarrow> error + unit" where
  "check_arguments children =
     (case children of
        r # l # rest \<Rightarrow>
          if \<not> (is_AttributeName l \<or> is_NumberLiteral l \<or> is_StringLiteral l) then Inl SyntaxError
          else if \<not> (is_AttributeName r \<or> is_NumberLiteral r \<or> is_StringLiteral r) then Inl SyntaxError
          else if is_NumberLiteral l \<and> is_StringLiteral r then Inl SyntaxError
          else if is_StringLiteral l \<and> is_NumberLiteral r then Inl SyntaxError
          else Inr ()
      | _ \<Rightarrow> Inl IndexError)"

text \<open>
  A list comprehension \<^verbatim>\<open>[x for x in xs if cond(x)]\<close> whose condition can raise: the
  first node on which it raises ends the comprehension with that error.
\<close>

fun filter_e :: "('a \<Rightarrow> error + bool) \<Rightarrow> 'a list \<Rightarrow> error + 'a list" where
  "filter_e f [] = Inr []"
| "filter_e f (x # xs) =
     (case f x of Inl e \<Rightarrow> Inl e
      | Inr b \<Rightarrow> (case filter_e f xs of Inl e \<Rightarrow> Inl e
                 | Inr ys \<Rightarrow> Inr (if b then x # ys else ys)))"

text \<open>
  The two comprehensions every per-node branch ends with:
  \<^verbatim>\<open>pos = [x for x in node_set_pos if cond(x)]\<close>,
  \<^verbatim>\<open>neg = [x for x in node_set_pos if x not in pos]\<close>.
\<close>

definition pos_neg :: "(node \<Rightarrow> error + bool) \<Rightarrow> node list \<Rightarrow> error + result" where
  "pos_neg cond node_set_pos =
     (case filter_e cond node_set_pos of Inl e \<Rightarrow> Inl e
      | Inr pos \<Rightarrow> Inr (VPair pos [x \<leftarrow> node_set_pos. x \<notin> set pos]))"

text \<open>
  The body shared by the \<^verbatim>\<open>evaluate\<close> methods of \<^verbatim>\<open>GreaterThan\<close>,
  \<^verbatim>\<open>GreaterThanOrEqual\<close>, \<^verbatim>\<open>SmallerThan\<close>, \<^verbatim>\<open>SmallerThanOrEqual\<close>, \<^verbatim>\<open>Equal\<close> and
  \<^verbatim>\<open>NotEqual\<close>, which differ in the operator alone. The first test names \<open>l\<close> on both
  sides of its \<^verbatim>\<open>and\<close>, as the source does. \<^verbatim>\<open>k in x.attrs and x.attrs[k] > v\<close> reads the
  attribute only when it is present. A method that passes every \<^verbatim>\<open>if\<close> returns \<^verbatim>\<open>None\<close>.
\<close>

definition comparison_evaluate ::
  "relop \<Rightarrow> predicate list \<Rightarrow> node list \<Rightarrow> node list \<Rightarrow> error + result" where
  "comparison_evaluate op children node_set_pos node_set_neg =
     (case check_arguments children of Inl e \<Rightarrow> Inl e
      | Inr u \<Rightarrow>
       (case children of
          r # l # rest \<Rightarrow>
            if \<not> is_AttributeName l \<and> \<not> is_AttributeName l then
              (case compare_values op (value_of l) (value_of r) of Inl e \<Rightarrow> Inl e
               | Inr b \<Rightarrow> if b then Inr (VPair node_set_pos node_set_neg)
                          else Inr (VPair [] node_set_pos))
            else if is_AttributeName l \<and> is_AttributeName r then
              (case (value_of l, value_of r) of
                 (Inr (PyStr lv), Inr (PyStr rv)) \<Rightarrow>
                   pos_neg (\<lambda>x. case map_of (attrs x) lv of None \<Rightarrow> Inr False
                       | Some a \<Rightarrow> (case map_of (attrs x) rv of None \<Rightarrow> Inr False
                           | Some b \<Rightarrow> py_compare op (PyStr a) (PyStr b))) node_set_pos
               | _ \<Rightarrow> Inl AttributeError)
            else if is_AttributeName l then
              (case value_of l of
                 Inr (PyStr lv) \<Rightarrow>
                   pos_neg (\<lambda>x. case map_of (attrs x) lv of None \<Rightarrow> Inr False
                       | Some a \<Rightarrow> compare_values op (Inr (PyStr a)) (value_of r)) node_set_pos
               | _ \<Rightarrow> Inl AttributeError)
            else if is_AttributeName r then
              (case value_of r of
                 Inr (PyStr rv) \<Rightarrow>
                   pos_neg (\<lambda>x. case map_of (attrs x) rv of None \<Rightarrow> Inr False
                       | Some a \<Rightarrow> compare_values op (value_of l) (Inr (PyStr a))) node_set_pos
               | _ \<Rightarrow> Inl AttributeError)
            else Inr VNone
        | _ \<Rightarrow> Inl IndexError))"

section \<open>Text predicates\<close>

text \<open>
  The head of \<^verbatim>\<open>TextContains.evaluate\<close>, \<^verbatim>\<open>TextStartsWith.evaluate\<close> and
  \<^verbatim>\<open>TextEndsWith.evaluate\<close>: \<open>atr\<close> and \<open>val\<close> start as \<^verbatim>\<open>None\<close> and are set by
  either of two tests. Each test reads \<^verbatim>\<open>children[0]\<close> and \<^verbatim>\<open>children[1]\<close>; with fewer
  than two children one of the reads raises \<^verbatim>\<open>IndexError\<close>.
\<close>

fun str_value :: "predicate \<Rightarrow> string option" where
  "str_value (AttributeName v) = Some v"
| "str_value (StringLiteral v) = Some v"
| "str_value p = None"

definition text_arguments :: "predicate list \<Rightarrow> error + (string option \<times> string option)" where
  "text_arguments children =
     (case children of
        c0 # c1 # rest \<Rightarrow>
          (let (atr, val) = (None, None);
               (atr, val) = (if is_AttributeName c0 \<and> is_StringLiteral c1
                             then (str_value c0, str_value c1) else (atr, val));
               (atr, val) = (if is_AttributeName c1 \<and> is_StringLiteral c0
                             then (str_value c1, str_value c0) else (atr, val))
           in Inr (atr, val))
      | _ \<Rightarrow> Inl IndexError)"

text \<open>
  \<^verbatim>\<open>atr in x.attrs and test(val, x.attrs[atr])\<close>: \<^verbatim>\<open>None in x.attrs\<close> is false, the keys
  being strings, and the test is then not run. A \<^verbatim>\<open>None\<close> pattern against a string raises
  \<^verbatim>\<open>TypeError\<close>.
\<close>

definition text_holds ::
  "(string \<Rightarrow> string \<Rightarrow> bool) \<Rightarrow> string option \<Rightarrow> string option \<Rightarrow> node \<Rightarrow> error + bool" where
  "text_holds test atr val x =
     (case atr of None \<Rightarrow> Inr False
      | Some k \<Rightarrow> (case map_of (attrs x) k of None \<Rightarrow> Inr False
          | Some s \<Rightarrow> (case val of None \<Rightarrow> Inl TypeError | Some v \<Rightarrow> Inr (test v s))))"

definition negate :: "error + bool \<Rightarrow> error + bool" where
  "negate r = (case r of Inl e \<Rightarrow> Inl e | Inr b \<Rightarrow> Inr (\<not> b))"

text \<open>
  \<^verbatim>\<open>pos\<close> keeps the nodes on which the test holds; \<^verbatim>\<open>neg\<close> is a second comprehension over
  \<^verbatim>\<open>node_set_pos\<close> with the negated condition.
\<close>

definition text_evaluate ::
  "(string \<Rightarrow> string \<Rightarrow> bool) \<Rightarrow> predicate list \<Rightarrow> node list \<Rightarrow> error + result" where
  "text_evaluate test children node_set_pos =
     (case text_arguments children of Inl e \<Rightarrow> Inl e
      | Inr (atr, val) \<Rightarrow>
        (case filter_e (text_holds test atr val) node_set_pos of Inl e \<Rightarrow> Inl e
         | Inr pos \<Rightarrow>
           (case filter_e (\<lambda>x. negate (text_holds test atr val x)) node_set_pos of Inl e \<Rightarrow> Inl e
            | Inr neg \<Rightarrow> Inr (VPair pos neg))))"

section \<open>Evaluation of predicates\<close>

text \<open>
  \<^verbatim>\<open>(a, b) = child.evaluate(...)\<close>: unpacking \<^verbatim>\<open>None\<close> raises \<^verbatim>\<open>TypeError\<close>. (No class
  that can be a child returns a list, so the last equation is never reached.)
\<close>

fun unpack :: "result \<Rightarrow> error + (node list \<times> node list)" where
  "unpack (VPair a b) = Inr (a, b)"
| "unpack VNone = Inl TypeError"
| "unpack (VList ss) = Inl ValueError"

text \<open>
  \<^verbatim>\<open>evaluate\<close> by class. The operand classes inherit the base method and return \<^verbatim>\<open>None\<close>.
  \<^verbatim>\<open>LogicalAnd\<close> and \<^verbatim>\<open>LogicalOr\<close> call \<^verbatim>\<open>self.children[0].evaluate\<close> for both of
  their pairs. \<^verbatim>\<open>list(set(...))\<close> drops duplicates and leaves the order to the hash
  values; \<open>remdups\<close> fixes one order, and nothing below depends on it.
\<close>

fun evaluate :: "predicate \<Rightarrow> node list \<Rightarrow> node list \<Rightarrow> error + result" where
  "evaluate (AttributeName v) node_set_pos node_set_neg = Inr VNone"
| "evaluate (StringLiteral v) node_set_pos node_set_neg = Inr VNone"
| "evaluate (NumberLiteral v) node_set_pos node_set_neg = Inr VNone"
| "evaluate (GreaterThan cs) node_set_pos node_set_neg =
     comparison_evaluate OpGt cs node_set_pos node_set_neg"
| "evaluate (GreaterThanOrEqual cs) node_set_pos node_set_neg =
     comparison_evaluate OpGe cs node_set_pos node_set_neg"
| "evaluate (SmallerThan cs) node_set_pos node_set_neg =
     comparison_evaluate OpLt cs node_set_pos node_set_neg"
| "evaluate (SmallerThanOrEqual cs) node_set_pos node_set_neg =
     comparison_evaluate OpLe cs node_set_pos node_set_neg"
| "evaluate (Equal cs) node_set_pos node_set_neg =
     comparison_evaluate OpEq cs node_set_pos node_set_neg"
| "evaluate (NotEqual cs) node_set_pos node_set_neg =
     comparison_evaluate OpNe cs node_set_pos node_set_neg"
| "evaluate (LogicalAnd []) node_set_pos node_set_neg = Inl IndexError"
| "evaluate (LogicalAnd (c0 # cs)) node_set_pos node_set_neg =
     (case evaluate c0 node_set_pos node_set_neg of Inl e \<Rightarrow> Inl e
      | Inr r1 \<Rightarrow> (case unpack r1 of Inl e \<Rightarrow> Inl e
        | Inr (a, b) \<Rightarrow>
          (case evaluate c0 node_set_pos node_set_neg of Inl e \<Rightarrow> Inl e
           | Inr r2 \<Rightarrow> (case unpack r2 of Inl e \<Rightarrow> Inl e
             | Inr (c, d) \<Rightarrow>
               (let pos = [x \<leftarrow> a. x \<in> set c];
                    neg = remdups [x \<leftarrow> a @ b @ c @ d. x \<notin> set pos]
                in Inr (VPair pos neg))))))"
| "evaluate (LogicalOr []) node_set_pos node_set_neg = Inl IndexError"
| "evaluate (LogicalOr (c0 # cs)) node_set_pos node_set_neg =
     (case evaluate c0 node_set_pos node_set_neg of Inl e \<Rightarrow> Inl e
      | Inr r1 \<Rightarrow> (case unpack r1 of Inl e \<Rightarrow> Inl e
        | Inr (a, b) \<Rightarrow>
          (case evaluate c0 node_set_pos node_set_neg of Inl e \<Rightarrow> Inl e
           | Inr r2 \<Rightarrow> (case unpack r2 of Inl e \<Rightarrow> Inl e
             | Inr (c, d) \<Rightarrow>
               (let pos = remdups (c @ a);
                    neg = remdups [x \<leftarrow> a @ b @ c @ d. x \<notin> set pos]
                in Inr (VPair pos neg))))))"
| "evaluate (LogicalNot cs) node_set_pos node_set_neg = Inr (VPair node_set_neg node_set_pos)"
| "evaluate (TextContains cs) node_set_pos node_set_neg = text_evaluate sublist cs node_set_pos"
| "evaluate (TextStartsWith cs) node_set_pos node_set_neg = text_evaluate prefix cs node_set_pos"
| "evaluate (TextEndsWith cs) node_set_pos node_set_neg = text_evaluate suffix cs node_set_pos"
| "evaluate (TextLength cs) node_set_pos node_set_neg = Inl NotImplementedError"

section \<open>Evaluation of steps\<close>

text \<open>
  \<^verbatim>\<open>evaluate\<close> of the step classes. \<open>select_all_evaluate\<close> is the body of
  \<^verbatim>\<open>SelectAll.evaluate\<close>: one loop over \<^verbatim>\<open>node_set_pos\<close>, an inner loop over
  \<^verbatim>\<open>x.find_all()\<close>, each \<open>y\<close> appended. \<^verbatim>\<open>SelectStar.evaluate\<close> calls the method of its base
  class \<^verbatim>\<open>SelectAll\<close>. \<^verbatim>\<open>SelectText\<close> and \<^verbatim>\<open>SelectAttribute\<close> return a list, not a pair.
\<close>

definition select_all_evaluate :: "node list \<Rightarrow> node list \<Rightarrow> error + result" where
  "select_all_evaluate node_set_pos node_set_neg =
     Inr (VPair (concat (map find_all node_set_pos)) [])"

fun evaluate_step :: "expression \<Rightarrow> node list \<Rightarrow> node list \<Rightarrow> error + result" where
  "evaluate_step SelectFromRootNode node_set_pos node_set_neg =
     Inr (VPair node_set_pos node_set_neg)"
| "evaluate_step SelectAll node_set_pos node_set_neg =
     select_all_evaluate node_set_pos node_set_neg"
| "evaluate_step SelectStar node_set_pos node_set_neg =
     select_all_evaluate node_set_pos node_set_neg"
| "evaluate_step (SelectHTMLTag tag_name) node_set_pos node_set_neg =
     Inr (VPair [x \<leftarrow> node_set_pos. name x = tag_name] [])"
| "evaluate_step SelectText node_set_pos node_set_neg =
     Inr (VList (map node_text node_set_pos))"
| "evaluate_step (SelectAttribute attribute_name) node_set_pos node_set_neg =
     Inr (VList (map (\<lambda>x. case map_of (attrs x) attribute_name of Some v \<Rightarrow> v | None \<Rightarrow> [])
                     node_set_pos))"
| "evaluate_step (PredicateNode p) node_set_pos node_set_neg =
     evaluate p node_set_pos node_set_neg"

section \<open>Tokens\<close>

text \<open>
  \<^verbatim>\<open>XPATHTokenizer\<close> is imported by the source and is not part of it: the compiler
  functions below take the token list it returns. A token is a Python \<^verbatim>\<open>str\<close>; a
  character here is a code point below 256.
\<close>

abbreviation quote :: char where
  "quote \<equiv> CHR 0x27"

definition is_digit :: "char \<Rightarrow> bool" where
  "is_digit c = (CHR ''0'' \<le> c \<and> c \<le> CHR ''9'')"

definition digit_val :: "char \<Rightarrow> int" where
  "digit_val c = int (of_char c) - 48"

definition is_alpha :: "char \<Rightarrow> bool" where
  "is_alpha c = ((CHR ''a'' \<le> c \<and> c \<le> CHR ''z'') \<or> (CHR ''A'' \<le> c \<and> c \<le> CHR ''Z''))"

text \<open>
  The characters \<^verbatim>\<open>int()\<close> skips around a number: the six of C's \<^verbatim>\<open>isspace\<close>
  (\<^verbatim>\<open>\t \n \v \f \r\<close> and the blank), and the white space beyond ASCII, which among the
  code points below 256 is \<^verbatim>\<open>U+0085\<close> and \<^verbatim>\<open>U+00A0\<close>. The separators \<^verbatim>\<open>U+001C\<close> to
  \<^verbatim>\<open>U+001F\<close> are not skipped.
\<close>

definition is_space :: "char \<Rightarrow> bool" where
  "is_space c = (c \<in> set [CHR 0x09, CHR 0x0A, CHR 0x0B, CHR 0x0C, CHR 0x0D, CHR 0x20,
                           CHR 0x85, CHR 0xA0])"

text \<open>\<^verbatim>\<open>t.startswith(c)\<close> for a one-character string.\<close>

definition startswith :: "string \<Rightarrow> char \<Rightarrow> bool" where
  "startswith t c = (case t of [] \<Rightarrow> False | d # ds \<Rightarrow> d = c)"

text \<open>\<^verbatim>\<open>re.compile('^[0-9]+').match(t)\<close>: the token begins with a digit.\<close>

definition match_number :: "string \<Rightarrow> bool" where
  "match_number t = (case t of [] \<Rightarrow> False | d # ds \<Rightarrow> is_digit d)"

text \<open>
  \<^verbatim>\<open>re.compile('^[a-zA-Z]+$').match(t)\<close>: \<^verbatim>\<open>$\<close> also matches before one newline that
  ends the string.
\<close>

definition match_tag :: "string \<Rightarrow> bool" where
  "match_tag t =
     (let s = (if t \<noteq> [] \<and> last t = CHR 0x0A then butlast t else t)
      in s \<noteq> [] \<and> list_all is_alpha s)"

text \<open>
  \<^verbatim>\<open>int(txt)\<close> on a \<^verbatim>\<open>str\<close>, in base 10: leading white space, an optional sign, then
  digits with single underscores allowed between two digits, then trailing white space;
  anything else raises \<^verbatim>\<open>ValueError\<close>. A number of more than \<^verbatim>\<open>sys.int_max_str_digits\<close>
  digits (4300 unless the interpreter is configured otherwise; underscores are not
  counted, leading zeros are) raises \<^verbatim>\<open>ValueError\<close> as well. The only decimal digits
  among the code points below 256 are \<^verbatim>\<open>0\<close> to \<^verbatim>\<open>9\<close>.
\<close>

definition int_max_str_digits :: nat where
  "int_max_str_digits = 4300"

fun digits_value :: "int \<Rightarrow> string \<Rightarrow> int option" where
  "digits_value acc [] = Some acc"
| "digits_value acc [c] = (if is_digit c then Some (10 * acc + digit_val c) else None)"
| "digits_value acc (c # d # ds) =
     (if is_digit c then digits_value (10 * acc + digit_val c) (d # ds)
      else if c = CHR ''_'' \<and> is_digit d then digits_value (10 * acc + digit_val d) ds
      else None)"

definition strip_sign :: "string \<Rightarrow> bool \<times> string" where
  "strip_sign s =
     (case s of
        [] \<Rightarrow> (False, [])
      | c # cs \<Rightarrow> if c = CHR ''-'' then (True, cs)
                 else if c = CHR ''+'' then (False, cs)
                 else (False, s))"

definition py_int :: "string \<Rightarrow> error + int" where
  "py_int txt =
     (case strip_sign (dropWhile is_space txt) of
        (negative, rest) \<Rightarrow>
          (case rev (dropWhile is_space (rev rest)) of
             [] \<Rightarrow> Inl ValueError
           | c # cs \<Rightarrow>
               if is_digit c then
                 (case digits_value (digit_val c) cs of
                    None \<Rightarrow> Inl ValueError
                  | Some n \<Rightarrow>
                      if length (filter is_digit (c # cs)) > int_max_str_digits
                      then Inl ValueError
                      else Inr (if negative then - n else n))
               else Inl ValueError))"

section \<open>Infix to postfix\<close>

text \<open>\<^verbatim>\<open>XPATHSyntaxTree._precedence\<close> and \<^verbatim>\<open>_is_left_associative\<close>.\<close>

definition precedence :: "string \<Rightarrow> nat" where
  "precedence xpath_operator =
     (if xpath_operator = ''='' then 1
      else if xpath_operator = ''or'' then 2
      else if xpath_operator = ''and'' then 3
      else if xpath_operator \<in> set [''>'', ''>='', ''<'', ''<=''] then 4
      else if xpath_operator \<in> set [''+'', ''-''] then 5
      else if xpath_operator \<in> set [''mul'', ''div''] then 6
      else if xpath_operator = ''not'' then 7
      else 8)"

definition is_left_associative :: "string \<Rightarrow> bool" where
  "is_left_associative xpath_operator = True"

definition l_b :: "string list" where
  "l_b = [''('', ''{'', ''['']"

definition r_b :: "string list" where
  "r_b = ['')'', ''}'', '']'']"

text \<open>
  The two lists \<^verbatim>\<open>out\<close> and \<^verbatim>\<open>operator_stack\<close> of \<^verbatim>\<open>_predicate_to_postfix\<close>.
  \<^verbatim>\<open>out\<close> grows at its end. \<^verbatim>\<open>operator_stack\<close> is used with \<^verbatim>\<open>append\<close>,
  \<^verbatim>\<open>pop(-1)\<close> and \<^verbatim>\<open>[-1]\<close> only, and is held here with its top first.

  The inner loop at a right bracket:
  \<^verbatim>\<open>while len(operator_stack) > 0 and operator_stack[-1] not in l_b:
      out.append(operator_stack.pop(-1))\<close>
\<close>

fun pop_to_bracket :: "string list \<Rightarrow> string list \<Rightarrow> string list \<times> string list" where
  "pop_to_bracket out [] = (out, [])"
| "pop_to_bracket out (s # operator_stack) =
     (if s \<notin> set l_b then pop_to_bracket (out @ [s]) operator_stack
      else (out, s # operator_stack))"

text \<open>
  The inner loop at an operator \<open>t\<close>: pop while the stack is not empty, its top is not a
  left bracket, and the top has a greater precedence than \<open>t\<close>, or an equal one with \<open>t\<close>
  left associative.
\<close>

fun pop_operators :: "string \<Rightarrow> string list \<Rightarrow> string list \<Rightarrow> string list \<times> string list" where
  "pop_operators t out [] = (out, [])"
| "pop_operators t out (s # operator_stack) =
     (if s \<notin> set l_b
         \<and> (precedence s > precedence t
            \<or> (precedence s = precedence t \<and> is_left_associative t))
      then pop_operators t (out @ [s]) operator_stack
      else (out, s # operator_stack))"

text \<open>
  One turn of the \<^verbatim>\<open>while i < len(xpath_predicate_expression)\<close> loop, on token \<open>t\<close>.
  Every branch of the source ends with \<^verbatim>\<open>i += 1; continue\<close>. At a right bracket,
  \<^verbatim>\<open>operator_stack[-1]\<close> is read after the inner loop, which raises \<^verbatim>\<open>IndexError\<close> on
  an empty stack. \<^verbatim>\<open>is_operand\<close> is true of a token that starts with \<^verbatim>\<open>@\<close> or with a
  quote, and \<^verbatim>\<open>is_operator = not is_operand\<close>: a token that reaches the last \<^verbatim>\<open>if\<close> is an
  operator.
\<close>

definition postfix_step ::
  "string \<Rightarrow> string list \<times> string list \<Rightarrow> error + (string list \<times> string list)" where
  "postfix_step t state =
     (case state of (out, operator_stack) \<Rightarrow>
        if t = '','' then Inr (out, operator_stack)
        else if t = '' '' then Inr (out, operator_stack)
        else if t \<in> set l_b then Inr (out, t # operator_stack)
        else if t \<in> set r_b then
          (case pop_to_bracket out operator_stack of
             (out', []) \<Rightarrow> Inl IndexError
           | (out', s # rest) \<Rightarrow>
               if s \<in> set l_b then Inr (out', rest) else Inr (out', s # rest))
        else
          (let is_operand = (startswith t CHR ''@'' \<or> startswith t quote)
           in if is_operand then Inr (out @ [t], operator_stack)
              else
                (case pop_operators t out operator_stack of
                   (out', operator_stack') \<Rightarrow> Inr (out', t # operator_stack'))))"

fun postfix_loop ::
  "string list \<Rightarrow> string list \<times> string list \<Rightarrow> error + (string list \<times> string list)" where
  "postfix_loop [] state = Inr state"
| "postfix_loop (t # ts) state =
     (case postfix_step t state of Inl e \<Rightarrow> Inl e | Inr state' \<Rightarrow> postfix_loop ts state')"

text \<open>
  \<^verbatim>\<open>_predicate_to_postfix\<close>: both lists start empty and \<^verbatim>\<open>out\<close> is returned. What is
  left on the operator stack at the end is not moved to \<^verbatim>\<open>out\<close>.
\<close>

definition predicate_to_postfix :: "string list \<Rightarrow> error + string list" where
  "predicate_to_postfix xpath_predicate_expression =
     (case postfix_loop xpath_predicate_expression ([], []) of
        Inl e \<Rightarrow> Inl e | Inr (out, operator_stack) \<Rightarrow> Inr out)"

section \<open>Postfix to tree\<close>

text \<open>
  The list \<^verbatim>\<open>tree\<close> of \<^verbatim>\<open>_predicate_postfix_to_tree\<close> is a stack as well (\<^verbatim>\<open>append\<close>,
  \<^verbatim>\<open>pop(-1)\<close>), held with its top first; \<^verbatim>\<open>tree[0]\<close>, the entry appended first, is then
  the last element.

  \<^verbatim>\<open>C().add_child(tree.pop(-1)).add_child(tree.pop(-1))\<close>: the first pop is
  \<^verbatim>\<open>children[0]\<close>, the second \<^verbatim>\<open>children[1]\<close>; a pop from the empty list raises
  \<^verbatim>\<open>IndexError\<close>.
\<close>

definition binary_node ::
  "(predicate list \<Rightarrow> predicate) \<Rightarrow> predicate list \<Rightarrow> error + predicate list" where
  "binary_node mk tree =
     (case tree of
        a # b # rest \<Rightarrow> Inr (mk [a, b] # rest)
      | _ \<Rightarrow> Inl IndexError)"

definition unary_node ::
  "(predicate list \<Rightarrow> predicate) \<Rightarrow> predicate list \<Rightarrow> error + predicate list" where
  "unary_node mk tree =
     (case tree of
        a # rest \<Rightarrow> Inr (mk [a] # rest)
      | [] \<Rightarrow> Inl IndexError)"

text \<open>
  One turn of the \<^verbatim>\<open>for t in xpath_postfix_predicate_expression\<close> loop. The three operand
  tests end with \<^verbatim>\<open>continue\<close>; the operator tests are separate \<^verbatim>\<open>if\<close>s on distinct
  strings, so at most one of them fires. The constructors slice the token:
  \<^verbatim>\<open>txt[1:]\<close>, \<^verbatim>\<open>txt[1:len(txt)-1]\<close>, \<^verbatim>\<open>int(txt)\<close>. A token that matches nothing leaves
  \<^verbatim>\<open>tree\<close> as it is.
\<close>

definition tree_step :: "string \<Rightarrow> predicate list \<Rightarrow> error + predicate list" where
  "tree_step t tree =
     (if startswith t CHR ''@'' then Inr (AttributeName (drop 1 t) # tree)
      else if startswith t quote then
        Inr (StringLiteral (drop 1 (take (length t - 1) t)) # tree)
      else if match_number t then
        (case py_int t of Inl e \<Rightarrow> Inl e | Inr n \<Rightarrow> Inr (NumberLiteral n # tree))
      else if t = ''>'' then binary_node GreaterThan tree
      else if t = ''>='' then binary_node GreaterThanOrEqual tree
      else if t = ''<'' then binary_node SmallerThan tree
      else if t = ''<='' then binary_node SmallerThanOrEqual tree
      else if t = ''='' then binary_node Equal tree
      else if t = ''!='' then binary_node NotEqual tree
      else if t = ''and'' then binary_node LogicalAnd tree
      else if t = ''or'' then binary_node LogicalOr tree
      else if t = ''not'' then unary_node LogicalNot tree
      else if t = ''ends-with'' then binary_node TextEndsWith tree
      else if t = ''starts-with'' then binary_node TextStartsWith tree
      else if t = ''contains'' then binary_node TextContains tree
      else if t = ''length'' then unary_node TextLength tree
      else Inr tree)"

fun tree_loop :: "string list \<Rightarrow> predicate list \<Rightarrow> error + predicate list" where
  "tree_loop [] tree = Inr tree"
| "tree_loop (t # ts) tree =
     (case tree_step t tree of Inl e \<Rightarrow> Inl e | Inr tree' \<Rightarrow> tree_loop ts tree')"

text \<open>
  \<^verbatim>\<open>_predicate_postfix_to_tree\<close>: the loop from the empty list, then \<^verbatim>\<open>return tree[0]\<close>,
  which raises \<^verbatim>\<open>IndexError\<close> on the empty list and reads nothing but the first entry.
\<close>

definition predicate_postfix_to_tree :: "string list \<Rightarrow> error + predicate" where
  "predicate_postfix_to_tree xpath_postfix_predicate_expression =
     (case tree_loop xpath_postfix_predicate_expression [] of
        Inl e \<Rightarrow> Inl e
      | Inr tree \<Rightarrow> (if tree = [] then Inl IndexError else Inr (last tree)))"

text \<open>The two calls chained, as \<^verbatim>\<open>xpath_to_syntax_tree\<close> does for a bracketed slice.\<close>

definition compile_predicate :: "string list \<Rightarrow> error + predicate" where
  "compile_predicate slice =
     (case predicate_to_postfix slice of
        Inl e \<Rightarrow> Inl e | Inr postfix \<Rightarrow> predicate_postfix_to_tree postfix)"

section \<open>The path compiler\<close>

text \<open>
  The \<^verbatim>\<open>while i < len(tokens)\<close> loop of \<^verbatim>\<open>xpath_to_syntax_tree\<close>, on the tokens from
  index \<open>i\<close> on. At \<^verbatim>\<open>[\<close>, \<^verbatim>\<open>tokens.index(']', i)\<close> is the first \<^verbatim>\<open>]\<close> from there and
  raises \<^verbatim>\<open>ValueError\<close> when there is none; the slice \<^verbatim>\<open>tokens[i:j+1]\<close> is compiled and
  the loop goes on behind it. At \<^verbatim>\<open>text\<close>, \<^verbatim>\<open>tokens[i+1]\<close> is read, and \<^verbatim>\<open>tokens[i+2]\<close>
  when \<^verbatim>\<open>tokens[i+1]\<close> is \<^verbatim>\<open>(\<close>; either read raises \<^verbatim>\<open>IndexError\<close> behind the end of
  the list.
\<close>

function xpath_loop :: "string list \<Rightarrow> expression list \<Rightarrow> error + expression list" where
  "xpath_loop [] nodes = Inr nodes"
| "xpath_loop (t # ts) nodes =
     (if t = ''['' then
        (if '']'' \<in> set ts then
           (case compile_predicate (t # takeWhile (\<lambda>u. u \<noteq> '']'') ts @ ['']'']) of
              Inl e \<Rightarrow> Inl e
            | Inr p \<Rightarrow> xpath_loop (tl (dropWhile (\<lambda>u. u \<noteq> '']'') ts))
                                  (nodes @ [PredicateNode p]))
         else Inl ValueError)
      else if t = ''/'' then xpath_loop ts (nodes @ [SelectFromRootNode])
      else if t = ''//'' then xpath_loop ts (nodes @ [SelectAll])
      else if t = ''*'' then xpath_loop ts (nodes @ [SelectStar])
      else if startswith t CHR ''@'' then xpath_loop ts (nodes @ [SelectAttribute (drop 1 t)])
      else if t = ''text'' then
        (case ts of
           [] \<Rightarrow> Inl IndexError
         | t1 # ts1 \<Rightarrow>
             if t1 = ''('' then
               (case ts1 of
                  [] \<Rightarrow> Inl IndexError
                | t2 # ts2 \<Rightarrow>
                    if t2 = '')'' then xpath_loop ts2 (nodes @ [SelectText])
                    else xpath_loop ts (nodes @ [SelectText]))
             else xpath_loop ts (nodes @ [SelectText]))
      else if match_tag t then xpath_loop ts (nodes @ [SelectHTMLTag t])
      else xpath_loop ts nodes)"
  by pat_completeness auto
termination
proof (relation "measure (\<lambda>(ts, nodes). length ts)")
  show "wf (measure (\<lambda>(ts, nodes). length ts))" by simp
next
  fix t :: string and ts :: "string list" and nodes :: "expression list" and x2 :: predicate
  show "((tl (dropWhile (\<lambda>u. u \<noteq> '']'') ts), nodes @ [PredicateNode x2]), t # ts, nodes)
          \<in> measure (\<lambda>(ts, nodes). length ts)"
    using length_dropWhile_le [of "\<lambda>u. u \<noteq> '']''" ts] by simp
qed simp_all

text \<open>
  \<^verbatim>\<open>xpath_to_syntax_tree\<close> behind the tokenizer: \<^verbatim>\<open>nodes\<close> starts empty.
\<close>

definition xpath_to_syntax_tree :: "string list \<Rightarrow> error + expression list" where
  "xpath_to_syntax_tree tokens = xpath_loop tokens []"

section \<open>Classes of predicates\<close>




section \<open>Concrete inputs\<close>

text \<open>A quoted literal token keeps its quotes: \<^verbatim>\<open>'abc'\<close>.\<close>

definition quoted :: "string \<Rightarrow> string" where
  "quoted s = quote # s @ [quote]"

text \<open>A node with the attributes \<^verbatim>\<open>{a: "1", b: "3"}\<close>, and a node with one child.\<close>

definition node_a1_b3 :: node where
  "node_a1_b3 = Node ''div'' [(''a'', ''1''), (''b'', ''3'')] ''x'' []"

definition node_leaf :: node where
  "node_leaf = Node ''b'' [] ''leaf'' []"

definition node_parent :: node where
  "node_parent = Node ''a'' [] ''top'' [node_leaf]"

text \<open>
  The operator tokens for which \<^verbatim>\<open>_predicate_postfix_to_tree\<close> pops two subtrees, and
  those for which it pops one.
\<close>

definition binary_tokens :: "string list" where
  "binary_tokens = [''>'', ''>='', ''<'', ''<='', ''='', ''!='', ''and'', ''or'',
                    ''ends-with'', ''starts-with'', ''contains'']"

definition unary_tokens :: "string list" where
  "unary_tokens = [''not'', ''length'']"

section \<open>Auxiliary facts\<close>

lemmas compile_simps = compile_predicate_def predicate_to_postfix_def postfix_step_def l_b_def
  r_b_def startswith_def precedence_def is_left_associative_def predicate_postfix_to_tree_def
  tree_step_def match_number_def is_digit_def py_int_def strip_sign_def is_space_def
  int_max_str_digits_def digit_val_def
  binary_node_def unary_node_def

lemmas comparison_simps = comparison_evaluate_def check_arguments_def pos_neg_def
  compare_values_def

lemma filter_e_const_False: "filter_e (\<lambda>x. Inr False) xs = Inr []"
  by (induction xs) simp_all

lemma filter_e_const_True: "filter_e (\<lambda>x. Inr True) xs = Inr xs"
  by (induction xs) simp_all











lemma text_arguments_unmatched:
  assumes "\<not> (is_AttributeName c0 \<and> is_StringLiteral c1)"
    and "\<not> (is_AttributeName c1 \<and> is_StringLiteral c0)"
  shows "text_arguments (c0 # c1 # rest) = Inr (None, None)"
  using assms by (auto simp: text_arguments_def)

lemma text_holds_None: "text_holds test None val = (\<lambda>x. Inr False)"
  by (rule ext) (simp add: text_holds_def)

lemma text_evaluate_unmatched:
  assumes "\<not> (is_AttributeName c0 \<and> is_StringLiteral c1)"
    and "\<not> (is_AttributeName c1 \<and> is_StringLiteral c0)"
  shows "text_evaluate test (c0 # c1 # rest) sel = Inr (VPair [] sel)"
  using assms
  by (simp add: text_evaluate_def text_arguments_unmatched text_holds_None negate_def
      filter_e_const_False filter_e_const_True)

lemma size_find_all: "y \<in> set (find_all x) \<Longrightarrow> size y < size x"
proof (induction x arbitrary: y)
  case (Node nm at tx cs)
  from Node.prems obtain c where c: "c \<in> set cs" and y: "y = c \<or> y \<in> set (find_all c)"
    by auto
  have "size c < size (Node nm at tx cs)"
    using c by (induction cs) auto
  moreover have "y \<in> set (find_all c) \<Longrightarrow> size y < size c"
    using Node.IH c by blast
  ultimately show ?case using y by auto
qed

lemma tree_loop_append:
  "tree_loop (xs @ ys) tree =
     (case tree_loop xs tree of Inl e \<Rightarrow> Inl e | Inr tree' \<Rightarrow> tree_loop ys tree')"
  by (induction xs arbitrary: tree) (auto split: sum.splits)

lemma postfix_loop_append:
  "postfix_loop (xs @ ys) state =
     (case postfix_loop xs state of Inl e \<Rightarrow> Inl e | Inr state' \<Rightarrow> postfix_loop ys state')"
  by (induction xs arbitrary: state) (auto split: sum.splits)

lemma pop_to_bracket_no_bracket:
  "set st \<inter> set l_b = {} \<Longrightarrow> pop_to_bracket out st = (out @ st, [])"
  by (induction st arbitrary: out) auto

lemma binary_node_short: "length tree < 2 \<Longrightarrow> binary_node mk tree = Inl IndexError"
  by (cases tree; cases "tl tree") (auto simp: binary_node_def)

lemma tree_step_binary_short:
  assumes "t \<in> set binary_tokens" and "length tree < 2"
  shows "tree_step t tree = Inl IndexError"
  using assms
  by (auto simp: binary_tokens_def tree_step_def startswith_def match_number_def is_digit_def
      binary_node_short)

lemma tree_step_unary_empty:
  assumes "t \<in> set unary_tokens"
  shows "tree_step t [] = Inl IndexError"
  using assms
  by (auto simp: unary_tokens_def tree_step_def startswith_def match_number_def is_digit_def
      unary_node_def)

lemma postfix_step_unmatched_close:
  assumes "b \<in> set r_b" and "set st \<inter> set l_b = {}"
  shows "postfix_step b (out, st) = Inl IndexError"
  using assms
  by (auto simp: postfix_step_def r_b_def l_b_def pop_to_bracket_no_bracket [unfolded l_b_def])

lemma filter_e_total: "filter_e (\<lambda>x. Inr (P x)) xs = Inr (filter P xs)"
  by (induction xs) simp_all

section \<open>Logical combinators\<close>

text \<open>
  C1. The claim: \<^verbatim>\<open>LogicalAnd.evaluate\<close> runs both children \<open>P\<close> and \<open>Q\<close> on the input pair,
  the selected output is the intersection of the two selected outputs, and for
  \<^verbatim>\<open>@a='1' and @b='2'\<close> a node with \<^verbatim>\<open>{a: "1", b: "3"}\<close> is not selected.
  The source calls \<^verbatim>\<open>self.children[0].evaluate\<close> for both pairs. With \<open>P\<close> the test
  \<^verbatim>\<open>@a = '1'\<close> and \<open>Q\<close> the test \<^verbatim>\<open>@b = '2'\<close>, the node with \<^verbatim>\<open>{a: "1", b: "3"}\<close> is
  selected by the conjunction, although \<open>Q\<close> alone rejects it.
\<close>

theorem logical_and_reads_first_child_twice:
  "evaluate (LogicalAnd [Equal [StringLiteral ''1'', AttributeName ''a''],
                         Equal [StringLiteral ''2'', AttributeName ''b'']]) [node_a1_b3] []
     = Inr (VPair [node_a1_b3] [])
   \<and> evaluate (Equal [StringLiteral ''2'', AttributeName ''b'']) [node_a1_b3] []
     = Inr (VPair [] [node_a1_b3])"
  by (simp add: comparison_simps node_a1_b3_def)

text \<open>
  The second child of \<^verbatim>\<open>LogicalAnd\<close> and \<^verbatim>\<open>LogicalOr\<close> has no effect on the result at all.
\<close>

lemma logical_and_or_ignore_other_children:
  "evaluate (LogicalAnd (c0 # cs)) sel rej = evaluate (LogicalAnd [c0]) sel rej
   \<and> evaluate (LogicalOr (c0 # cs)) sel rej = evaluate (LogicalOr [c0]) sel rej"
  by simp

text \<open>
  The token slice of \<^verbatim>\<open>[@a='1' and @b='2']\<close> itself: \<^verbatim>\<open>=\<close> has the lowest precedence, so
  \<^verbatim>\<open>and\<close> is reduced first, over \<^verbatim>\<open>'1'\<close> and \<^verbatim>\<open>@b\<close>; the root is an \<^verbatim>\<open>Equal\<close> with an
  \<^verbatim>\<open>Equal\<close> child, and evaluating it raises \<^verbatim>\<open>SyntaxError\<close> on every input.
\<close>

lemma scenario_and_query:
  "compile_predicate
       [''['', ''@a'', ''='', quoted ''1'', ''and'', ''@b'', ''='', quoted ''2'', '']'']
     = Inr (Equal [StringLiteral ''2'',
                   Equal [LogicalAnd [AttributeName ''b'', StringLiteral ''1''],
                          AttributeName ''a'']])
   \<and> evaluate (Equal [StringLiteral ''2'',
                      Equal [LogicalAnd [AttributeName ''b'', StringLiteral ''1''],
                             AttributeName ''a'']]) sel rej
     = Inl SyntaxError"
  by (simp add: compile_simps quoted_def comparison_simps)

text \<open>
  C9. \<^verbatim>\<open>LogicalNot.evaluate\<close> returns \<^verbatim>\<open>(node_set_neg, node_set_pos)\<close> whatever its
  children are (it reads none of them, so a child whose own evaluation would raise
  changes nothing), and applied to its own output it returns the original pair.
\<close>

theorem logical_not_swaps:
  "evaluate (LogicalNot cs) sel rej = Inr (VPair rej sel)
   \<and> evaluate (TextLength []) sel rej = Inl NotImplementedError
   \<and> evaluate (LogicalNot [TextLength []]) sel rej = Inr (VPair rej sel)
   \<and> (case evaluate (LogicalNot cs) sel rej of
         Inr (VPair s r) \<Rightarrow> evaluate (LogicalNot cs) s r
       | other \<Rightarrow> other) = Inr (VPair sel rej)"
  by simp

section \<open>Comparisons\<close>

text \<open>
  C2. The claim: with one attribute reference and one literal as children, in either
  order, a comparison selects the input nodes that carry the attribute with a value that
  satisfies the operator against the literal, and rejects the others.
  With the attribute reference as \<^verbatim>\<open>children[0]\<close> and the literal as \<^verbatim>\<open>children[1]\<close>, the
  first test of \<^verbatim>\<open>evaluate\<close> (which names \<open>l\<close> twice) takes the literal-only branch and
  compares the literal with the attribute's name: \<^verbatim>\<open>'1' = @a\<close> rejects a node whose
  attribute \<open>a\<close> is \<^verbatim>\<open>"1"\<close>. In the other order the same node is selected.
\<close>

theorem comparison_literal_second_child:
  "evaluate (Equal [AttributeName ''a'', StringLiteral ''1'']) [node_a1_b3] []
     = Inr (VPair [] [node_a1_b3])
   \<and> evaluate (Equal [StringLiteral ''1'', AttributeName ''a'']) [node_a1_b3] []
     = Inr (VPair [node_a1_b3] [])"
  by (simp add: comparison_simps node_a1_b3_def)

text \<open>
  With the attribute reference as \<^verbatim>\<open>children[1]\<close> and a string literal as
  \<^verbatim>\<open>children[0]\<close>, every operator partitions the input as the claim describes.
\<close>

lemma comparison_attribute_second_child:
  "comparison_evaluate op [StringLiteral v, AttributeName k] sel rej =
     Inr (VPair [x \<leftarrow> sel. \<exists>a. map_of (attrs x) k = Some a
                               \<and> py_compare op (PyStr a) (PyStr v) = Inr True]
                [x \<leftarrow> sel. \<not> (\<exists>a. map_of (attrs x) k = Some a
                                  \<and> py_compare op (PyStr a) (PyStr v) = Inr True)])"
proof -
  let ?P = "\<lambda>x. \<exists>a. map_of (attrs x) k = Some a \<and> py_compare op (PyStr a) (PyStr v) = Inr True"
  have c: "(\<lambda>x. case map_of (attrs x) k of None \<Rightarrow> Inr False
                | Some a \<Rightarrow> compare_values op (Inr (PyStr a)) (value_of (StringLiteral v)))
           = (\<lambda>x. Inr (?P x))"
    by (rule ext) (cases op; auto simp: compare_values_def split: option.splits)
  have n: "[x \<leftarrow> sel. x \<notin> set (filter ?P sel)] = [x \<leftarrow> sel. \<not> ?P x]"
    by (rule filter_cong) auto
  have "comparison_evaluate op [StringLiteral v, AttributeName k] sel rej
          = pos_neg (\<lambda>x. Inr (?P x)) sel"
    by (simp add: comparison_evaluate_def check_arguments_def c)
  also have "\<dots> = Inr (VPair (filter ?P sel) [x \<leftarrow> sel. \<not> ?P x])"
    unfolding pos_neg_def filter_e_total using n by simp
  finally show ?thesis .
qed

text \<open>
  An order comparison of an attribute value, a string, with a number literal raises
  \<^verbatim>\<open>TypeError\<close> on the first node that carries the attribute.
\<close>

lemma order_comparison_attribute_number:
  "evaluate (GreaterThan [NumberLiteral 0, AttributeName ''b'']) [node_a1_b3] [] = Inl TypeError"
  by (simp add: comparison_simps node_a1_b3_def)

section \<open>Outputs of a predicate\<close>




section \<open>Text predicates\<close>

text \<open>
  C10. When the first two children of \<^verbatim>\<open>TextContains\<close>, \<^verbatim>\<open>TextStartsWith\<close> or
  \<^verbatim>\<open>TextEndsWith\<close> are not one \<^verbatim>\<open>AttributeName\<close> and one \<^verbatim>\<open>StringLiteral\<close>, in either
  order, \<^verbatim>\<open>evaluate\<close> raises nothing: it returns the empty list as selected and the whole
  input selected list as rejected.
\<close>

theorem text_predicate_unmatched_children:
  assumes "\<not> (is_AttributeName c0 \<and> is_StringLiteral c1)"
    and "\<not> (is_AttributeName c1 \<and> is_StringLiteral c0)"
  shows "evaluate (TextContains (c0 # c1 # rest)) sel rej = Inr (VPair [] sel)
   \<and> evaluate (TextStartsWith (c0 # c1 # rest)) sel rej = Inr (VPair [] sel)
   \<and> evaluate (TextEndsWith (c0 # c1 # rest)) sel rej = Inr (VPair [] sel)"
  using assms by (simp add: text_evaluate_unmatched)

text \<open>C10 at two attribute references, on a node that carries both attributes.\<close>

theorem text_predicate_unmatched_children_witness:
  "\<not> (is_AttributeName (AttributeName ''a'') \<and> is_StringLiteral (AttributeName ''b''))
   \<and> \<not> (is_AttributeName (AttributeName ''b'') \<and> is_StringLiteral (AttributeName ''a''))
   \<and> evaluate (TextContains [AttributeName ''a'', AttributeName ''b'']) [node_a1_b3] [node_leaf]
       = Inr (VPair [] [node_a1_b3])
   \<and> evaluate (TextStartsWith [AttributeName ''a'', AttributeName ''b'']) [node_a1_b3] [node_leaf]
       = Inr (VPair [] [node_a1_b3])
   \<and> evaluate (TextEndsWith [AttributeName ''a'', AttributeName ''b'']) [node_a1_b3] [node_leaf]
       = Inr (VPair [] [node_a1_b3])"
proof -
  have h1: "\<not> (is_AttributeName (AttributeName ''a'') \<and> is_StringLiteral (AttributeName ''b''))"
    by simp
  have h2: "\<not> (is_AttributeName (AttributeName ''b'') \<and> is_StringLiteral (AttributeName ''a''))"
    by simp
  from text_predicate_unmatched_children [OF h1 h2, of "[]" "[node_a1_b3]" "[node_leaf]"] h1 h2
  show ?thesis by blast
qed

section \<open>Steps\<close>

text \<open>
  C7, as claimed: the new selected list of \<^verbatim>\<open>SelectAll\<close> holds each input node followed
  by its descendants. On the one node \<^verbatim>\<open>parent\<close> the result is not \<^verbatim>\<open>parent\<close> followed by
  its descendants.
\<close>

theorem select_all_omits_self:
  "evaluate_step SelectAll [node_parent] []
     \<noteq> Inr (VPair (node_parent # find_all node_parent) [])"
  by (simp add: select_all_evaluate_def node_parent_def node_leaf_def)

text \<open>
  C7, amended: \<^verbatim>\<open>SelectAll\<close> and \<^verbatim>\<open>SelectStar\<close> return as selected the concatenation, over
  the input selected list in order, of \<^verbatim>\<open>find_all()\<close> of each node, and an empty rejected
  list; a node is never among its own \<^verbatim>\<open>find_all()\<close>.
\<close>

theorem select_all_descendants_only:
  "evaluate_step SelectAll sel rej = Inr (VPair (concat (map find_all sel)) [])
   \<and> evaluate_step SelectStar sel rej = Inr (VPair (concat (map find_all sel)) [])
   \<and> x \<notin> set (find_all x)"
  using size_find_all [of x x] by (auto simp: select_all_evaluate_def)

section \<open>The predicate compiler\<close>

text \<open>
  C6. The claim: a bare number token is an operand of the shunting-yard pass and goes
  straight to the output. \<^verbatim>\<open>is_operand\<close> tests for \<^verbatim>\<open>@\<close> and the quote only, so the token
  \<^verbatim>\<open>5\<close> is handled as an operator of precedence 8: in \<^verbatim>\<open>[@a != 5]\<close> it pops \<^verbatim>\<open>!=\<close> to the
  output and is pushed on the operator stack. The postfix order is \<^verbatim>\<open>@a != 5\<close>, and the
  tree builder pops from an empty list.
\<close>

theorem number_token_is_pushed_as_operator:
  "postfix_step ''5'' ([''@a''], [''!='', ''['']) = Inr ([''@a'', ''!=''], [''5'', ''[''])
   \<and> predicate_to_postfix [''['', ''@a'', ''!='', ''5'', '']''] = Inr [''@a'', ''!='', ''5'']
   \<and> compile_predicate [''['', ''@a'', ''!='', ''5'', '']''] = Inl IndexError"
  by (simp add: compile_simps)

text \<open>
  C5. The claim: a comparison of a number literal with a string literal compiles in
  either operand order and fails when evaluated. \<^verbatim>\<open>['a' != 5]\<close> does not compile: the
  number token is handled as an operator and pops \<^verbatim>\<open>!=\<close> before its second operand is
  there. In the other order the predicate compiles.
\<close>

theorem string_unequal_number_does_not_compile:
  "compile_predicate [''['', quoted ''a'', ''!='', ''5'', '']''] = Inl IndexError
   \<and> compile_predicate [''['', ''5'', ''!='', quoted ''a'', '']'']
       = Inr (NotEqual [StringLiteral ''a'', NumberLiteral 5])"
  by (simp add: compile_simps quoted_def)

text \<open>
  What holds of C5 on every tree: a comparison whose first two children are a number
  and a string literal, or one of whose first two children is no operand, raises
  \<^verbatim>\<open>SyntaxError\<close> on every evaluation, whatever the input.
\<close>

lemma comparison_type_mismatch:
  assumes "(is_NumberLiteral l \<and> is_StringLiteral r) \<or> (is_StringLiteral l \<and> is_NumberLiteral r)"
  shows "comparison_evaluate op (r # l # rest) sel rej = Inl SyntaxError"
  using assms by (auto simp: comparison_evaluate_def check_arguments_def)

lemma comparison_invalid_child:
  assumes "\<not> (is_AttributeName l \<or> is_NumberLiteral l \<or> is_StringLiteral l)
         \<or> \<not> (is_AttributeName r \<or> is_NumberLiteral r \<or> is_StringLiteral r)"
  shows "comparison_evaluate op (r # l # rest) sel rej = Inl SyntaxError"
  using assms by (auto simp: comparison_evaluate_def check_arguments_def)

text \<open>
  C4, as claimed: a slice whose reduction leaves more than one subtree raises an error.
  \<^verbatim>\<open>[@a @b]\<close> leaves two subtrees and compiles to the first.
\<close>

theorem two_roots_compile_without_error:
  "tree_loop [''@a'', ''@b''] [] = Inr [AttributeName ''b'', AttributeName ''a'']
   \<and> compile_predicate [''['', ''@a'', ''@b'', '']''] = Inr (AttributeName ''a'')"
  by (simp add: compile_simps)

text \<open>
  C4, amended. (1) When the reduction ends with a non-empty list of subtrees, however
  many, and whatever is left on the operator stack, compilation returns the subtree that
  was appended first, without error. (2) A binary operator token that meets fewer than
  two subtrees, or a unary one that meets none, raises \<^verbatim>\<open>IndexError\<close> during compilation.
  (3) A closing bracket that meets an operator stack without an opening bracket raises
  \<^verbatim>\<open>IndexError\<close> during compilation.
\<close>

theorem compile_structural_behaviour:
  "(postfix_loop slice ([], []) = Inr (postfix, st) \<and> tree_loop postfix [] = Inr tree
        \<and> tree \<noteq> []
      \<longrightarrow> compile_predicate slice = Inr (last tree))
   \<and> (predicate_to_postfix slice' = Inr (pre @ t # post) \<and> tree_loop pre [] = Inr tree'
        \<and> ((t \<in> set binary_tokens \<and> length tree' < 2) \<or> (t \<in> set unary_tokens \<and> tree' = []))
      \<longrightarrow> compile_predicate slice' = Inl IndexError)
   \<and> (postfix_loop pre' ([], []) = Inr (out, st') \<and> b \<in> set r_b \<and> set st' \<inter> set l_b = {}
      \<longrightarrow> compile_predicate (pre' @ b # post') = Inl IndexError)"
proof (intro conjI impI)
  assume "postfix_loop slice ([], []) = Inr (postfix, st) \<and> tree_loop postfix [] = Inr tree
            \<and> tree \<noteq> []"
  then show "compile_predicate slice = Inr (last tree)"
    by (simp add: compile_predicate_def predicate_to_postfix_def predicate_postfix_to_tree_def)
next
  assume a: "predicate_to_postfix slice' = Inr (pre @ t # post) \<and> tree_loop pre [] = Inr tree'
        \<and> ((t \<in> set binary_tokens \<and> length tree' < 2) \<or> (t \<in> set unary_tokens \<and> tree' = []))"
  then have "tree_step t tree' = Inl IndexError"
    using tree_step_binary_short tree_step_unary_empty by blast
  with a show "compile_predicate slice' = Inl IndexError"
    by (simp add: compile_predicate_def predicate_postfix_to_tree_def tree_loop_append)
next
  assume a: "postfix_loop pre' ([], []) = Inr (out, st') \<and> b \<in> set r_b
               \<and> set st' \<inter> set l_b = {}"
  then have "postfix_step b (out, st') = Inl IndexError"
    using postfix_step_unmatched_close by blast
  with a show "compile_predicate (pre' @ b # post') = Inl IndexError"
    by (simp add: compile_predicate_def predicate_to_postfix_def postfix_loop_append)
qed

text \<open>
  The amended C4 at three slices: \<^verbatim>\<open>[(@a @b]\<close> with an open parenthesis and two subtrees
  left, \<^verbatim>\<open>[= @a]\<close> where \<^verbatim>\<open>=\<close> meets one subtree, and \<^verbatim>\<open>[@a )]\<close> where \<^verbatim>\<open>]\<close> meets the
  empty operator stack.
\<close>

theorem compile_structural_behaviour_witness:
  "compile_predicate [''['', ''('', ''@a'', ''@b'', '']''] = Inr (AttributeName ''a'')
   \<and> compile_predicate [''['', ''='', ''@a'', '']''] = Inl IndexError
   \<and> compile_predicate [''['', ''@a'', '')'', '']''] = Inl IndexError"
proof -
  have h1: "postfix_loop [''['', ''('', ''@a'', ''@b'', '']''] ([], [])
              = Inr ([''@a'', ''@b''], [''[''])
         \<and> tree_loop [''@a'', ''@b''] [] = Inr [AttributeName ''b'', AttributeName ''a'']
         \<and> [AttributeName ''b'', AttributeName ''a''] \<noteq> []"
    by (simp add: compile_simps)
  have h2: "predicate_to_postfix [''['', ''='', ''@a'', '']''] = Inr ([''@a''] @ ''='' # [])
        \<and> tree_loop [''@a''] [] = Inr [AttributeName ''a'']
        \<and> ((''='' \<in> set binary_tokens \<and> length [AttributeName ''a''] < 2)
            \<or> (''='' \<in> set unary_tokens \<and> [AttributeName ''a''] = []))"
    by (simp add: compile_simps binary_tokens_def)
  have h3: "postfix_loop [''['', ''@a'', '')''] ([], []) = Inr ([''@a''], [])
        \<and> '']'' \<in> set r_b \<and> set [] \<inter> set l_b = {}"
    by (simp add: compile_simps)
  from compile_structural_behaviour
      [of "[''['', ''('', ''@a'', ''@b'', '']'']" "[''@a'', ''@b'']" "[''['']"
          "[AttributeName ''b'', AttributeName ''a'']"
          "[''['', ''='', ''@a'', '']'']" "[''@a'']" "''=''" "[]" "[AttributeName ''a'']"
          "[''['', ''@a'', '')'']" "[''@a'']" "[]" "'']''" "[]"] h1 h2 h3
  show ?thesis by simp
qed

section \<open>The path compiler\<close>

text \<open>
  C8. The claim: a token list that ends with the bare token \<^verbatim>\<open>text\<close> compiles, with a
  \<^verbatim>\<open>SelectText\<close> step appended. The source reads \<^verbatim>\<open>tokens[i+1]\<close> behind the end of the
  list and raises \<^verbatim>\<open>IndexError\<close>; with the parenthesis pair present the same path
  compiles.
\<close>

theorem bare_text_token_raises:
  "xpath_to_syntax_tree [''/'', ''a'', ''/'', ''text''] = Inl IndexError
   \<and> xpath_to_syntax_tree [''/'', ''a'', ''/'', ''text'', ''('', '')'']
       = Inr [SelectFromRootNode, SelectHTMLTag ''a'', SelectFromRootNode, SelectText]"
  by (simp add: xpath_to_syntax_tree_def startswith_def match_tag_def is_alpha_def)

end
